theory Spec2Isabelle
  imports Main
begin

section \<open>JavaScript strings\<close>

text \<open>
  A JavaScript string is modelled as a \<^typ>\<open>string\<close>: one \<^typ>\<open>char\<close> stands for the
  UTF-16 code unit of the same value, so the model covers the strings whose code units
  are below 256 (ASCII and Latin-1). On this range the functions below are the ones of
  the ECMAScript standard.
\<close>

definition is_ws :: "char \<Rightarrow> bool" where
  \<comment> \<open>white space and line terminators, as \<open>trim\<close> and the regular expression \<open>\s\<close> see them:
      TAB, LF, VT, FF, CR, SPACE, NBSP\<close>
  "is_ws c = (c \<in> set [CHR 0x09, CHR 0x0A, CHR 0x0B, CHR 0x0C, CHR 0x0D, CHR 0x20, CHR 0xA0])"

definition trim :: "string \<Rightarrow> string" where
  "trim s = rev (dropWhile is_ws (rev (dropWhile is_ws s)))"

definition startsWith :: "string \<Rightarrow> string \<Rightarrow> bool" where
  "startsWith s p = (take (length p) s = p)"

definition endsWith :: "string \<Rightarrow> string \<Rightarrow> bool" where
  "endsWith s p = (length p \<le> length s \<and> drop (length s - length p) s = p)"

definition capital_letters :: string where
  \<comment> \<open>\<open>A\<close> to \<open>Z\<close>, and the capital letters of Latin-1: 0xC0 to 0xDE without the
      multiplication sign 0xD7\<close>
  "capital_letters = ''ABCDEFGHIJKLMNOPQRSTUVWXYZ'' @
     [CHR 0xC0, CHR 0xC1, CHR 0xC2, CHR 0xC3, CHR 0xC4, CHR 0xC5, CHR 0xC6, CHR 0xC7,
      CHR 0xC8, CHR 0xC9, CHR 0xCA, CHR 0xCB, CHR 0xCC, CHR 0xCD, CHR 0xCE, CHR 0xCF,
      CHR 0xD0, CHR 0xD1, CHR 0xD2, CHR 0xD3, CHR 0xD4, CHR 0xD5, CHR 0xD6,
      CHR 0xD8, CHR 0xD9, CHR 0xDA, CHR 0xDB, CHR 0xDC, CHR 0xDD, CHR 0xDE]"

definition small_letters :: string where
  \<comment> \<open>the small letter of each capital letter, in the same order: 32 code units higher\<close>
  "small_letters = ''abcdefghijklmnopqrstuvwxyz'' @
     [CHR 0xE0, CHR 0xE1, CHR 0xE2, CHR 0xE3, CHR 0xE4, CHR 0xE5, CHR 0xE6, CHR 0xE7,
      CHR 0xE8, CHR 0xE9, CHR 0xEA, CHR 0xEB, CHR 0xEC, CHR 0xED, CHR 0xEE, CHR 0xEF,
      CHR 0xF0, CHR 0xF1, CHR 0xF2, CHR 0xF3, CHR 0xF4, CHR 0xF5, CHR 0xF6,
      CHR 0xF8, CHR 0xF9, CHR 0xFA, CHR 0xFB, CHR 0xFC, CHR 0xFD, CHR 0xFE]"

definition lower_char :: "char \<Rightarrow> char" where
  "lower_char c = (case map_of (zip capital_letters small_letters) c of Some l \<Rightarrow> l | None \<Rightarrow> c)"

definition toLowerCase :: "string \<Rightarrow> string" where
  "toLowerCase s = map lower_char s"

definition canon :: "char \<Rightarrow> char" where
  \<comment> \<open>the canonical form under which a regular expression with flag \<open>i\<close> compares code
      units: the capital letter of a small letter, where that is a code unit of the
      model's range\<close>
  "canon c = (case map_of (zip small_letters capital_letters) c of Some u \<Rightarrow> u | None \<Rightarrow> c)"

definition matches_at_ci :: "string \<Rightarrow> string \<Rightarrow> bool" where
  \<comment> \<open>the literal pattern \<open>pat\<close> matches at the start of \<open>s\<close>, ignoring case\<close>
  "matches_at_ci pat s = (length pat \<le> length s \<and> map canon (take (length pat) s) = map canon pat)"

fun test_ci :: "string \<Rightarrow> string \<Rightarrow> bool" where
  \<comment> \<open>\<open>/pat/i.test(s)\<close> for a literal pattern: a match at some position\<close>
  "test_ci pat [] = matches_at_ci pat []"
| "test_ci pat (c # cs) = (matches_at_ci pat (c # cs) \<or> test_ci pat cs)"

fun indexOf :: "string \<Rightarrow> char \<Rightarrow> int" where
  "indexOf [] ch = -1"
| "indexOf (c # cs) ch = (if c = ch then 0 else (let i = indexOf cs ch in if i = -1 then -1 else i + 1))"

definition lastIndexOf :: "string \<Rightarrow> char \<Rightarrow> int" where
  "lastIndexOf s ch = (let i = indexOf (rev s) ch in if i = -1 then -1 else int (length s) - 1 - i)"

definition slice :: "string \<Rightarrow> nat \<Rightarrow> nat \<Rightarrow> string" where
  \<comment> \<open>\<open>s.slice(b, e)\<close> for indices that are not negative\<close>
  "slice s b e = take (e - b) (drop b s)"

function digits :: "nat \<Rightarrow> string" where
  "digits n = (if n < 10 then [''0123456789'' ! n]
               else digits (n div 10) @ [''0123456789'' ! (n mod 10)])"
  by pat_completeness auto
termination
  by (relation "measure id") auto

declare digits.simps [simp del]

definition show_int :: "int \<Rightarrow> string" where
  "show_int i = (if i < 0 then ''-'' @ digits (nat (- i)) else digits (nat i))"

fun join_comma :: "string list \<Rightarrow> string" where
  "join_comma [] = ''''"
| "join_comma [s] = s"
| "join_comma (s # t # ts) = s @ '','' @ join_comma (t # ts)"

function split_on :: "string \<Rightarrow> string \<Rightarrow> string list" where
  \<comment> \<open>\<open>s.split(/\s*,\s*/)\<close>, scanning from the left: \<open>cur\<close> holds (reversed) the
      piece read so far. The expression matches at a position when the run of white space
      there is followed by a comma; the match then extends over the white space after it.\<close>
  "split_on cur [] = [rev cur]"
| "split_on cur (c # cs) =
     (case dropWhile is_ws (c # cs) of
        d # ds \<Rightarrow> if d = CHR '','' then rev cur # split_on [] (dropWhile is_ws ds)
                  else split_on (c # cur) cs
      | [] \<Rightarrow> split_on (c # cur) cs)"
  by pat_completeness auto
termination
proof (relation "measure (\<lambda>(cur, s). length s)")
  fix cur :: string and c :: char and cs :: string and d :: char and ds :: string
  assume eq: "dropWhile is_ws (c # cs) = d # ds"
  have "length (d # ds) \<le> length (c # cs)"
    using length_dropWhile_le [of is_ws "c # cs"] by (simp only: eq)
  moreover have "length (dropWhile is_ws ds) \<le> length ds"
    by (rule length_dropWhile_le)
  ultimately show "((([]::string), dropWhile is_ws ds), (cur, c # cs)) \<in> measure (\<lambda>(cur, s). length s)"
    by simp
qed simp_all

definition split_commas :: "string \<Rightarrow> string list" where
  "split_commas s = split_on [] s"

definition strip_first :: "char \<Rightarrow> string \<Rightarrow> string" where
  \<comment> \<open>the alternative \<open>^c\<close> of a global replace by the empty string\<close>
  "strip_first ch s = (case s of c # cs \<Rightarrow> if c = ch then cs else s | [] \<Rightarrow> [])"

definition strip_last :: "char \<Rightarrow> string \<Rightarrow> string" where
  \<comment> \<open>the alternative \<open>c$\<close> of a global replace by the empty string\<close>
  "strip_last ch s = (if s \<noteq> [] \<and> last s = ch then butlast s else s)"

section \<open>JSON values\<close>

text \<open>
  The values a handler sees: what \<open>JSON.parse\<close> returns, and \<open>undefined\<close>, which reading
  an absent property gives. An object lists its members in order, with distinct keys, as
  the parser builds it. Numbers are the integers that \<open>String\<close> prints in plain decimal
  notation. The two exceptions that the handlers can raise themselves are TypeErrors:
  \<open>CannotConvert\<close>, when \<open>String\<close> is applied to an object that has no primitive value, and
  \<open>NotAFunction\<close>, when a property that is no function is called.
\<close>

datatype json =
    JUndef
  | JNull
  | JBool bool
  | JNum int
  | JStr string
  | JArr "json list"
  | JObj "(string \<times> json) list"

fun truthy :: "json \<Rightarrow> bool" where
  "truthy JUndef = False"
| "truthy JNull = False"
| "truthy (JBool b) = b"
| "truthy (JNum i) = (i \<noteq> 0)"
| "truthy (JStr s) = (s \<noteq> [])"
| "truthy (JArr xs) = True"
| "truthy (JObj kv) = True"

fun nullish :: "json \<Rightarrow> bool" where
  "nullish JUndef = True"
| "nullish JNull = True"
| "nullish v = False"

fun get_field :: "json \<Rightarrow> string \<Rightarrow> json" where
  \<comment> \<open>reading property \<open>k\<close> (one of the field names of the payloads, none of which a
      prototype defines): \<open>undefined\<close> unless the value is an object with that member\<close>
  "get_field (JObj kv) k = (case map_of kv k of Some v \<Rightarrow> v | None \<Rightarrow> JUndef)"
| "get_field v k = JUndef"

datatype exn = CannotConvert | NotAFunction

fun has_key :: "json \<Rightarrow> string \<Rightarrow> bool" where
  \<comment> \<open>\<open>typeof v === 'object' && v && k in v\<close>, for a key that no prototype defines\<close>
  "has_key (JObj kv) k = (k \<in> fst ` set kv)"
| "has_key v k = False"

fun js_String :: "json \<Rightarrow> string option" where
  \<comment> \<open>\<open>String(v)\<close>; \<open>None\<close> is the TypeError \<open>CannotConvert\<close>. An object is converted by
      its method \<open>toString\<close>: the inherited one gives \<open>[object Object]\<close>, but a member
      \<open>toString\<close> of the parsed object hides it and is no function (the inherited
      \<open>valueOf\<close>, tried next, returns the object), so the conversion fails. An array prints
      its elements joined by commas, \<open>null\<close> and \<open>undefined\<close> elements as the empty
      string, and fails if the conversion of an element fails.\<close>
  "js_String JUndef = Some ''undefined''"
| "js_String JNull = Some ''null''"
| "js_String (JBool b) = Some (if b then ''true'' else ''false'')"
| "js_String (JNum i) = Some (show_int i)"
| "js_String (JStr s) = Some s"
| "js_String (JArr xs) =
     map_option join_comma (those (map (\<lambda>x. if nullish x then Some [] else js_String x) xs))"
| "js_String (JObj kv) = (if has_key (JObj kv) ''toString'' then None else Some ''[object Object]'')"

fun first_or_undef :: "json list \<Rightarrow> json" where
  \<comment> \<open>\<open>xs[0]\<close>\<close>
  "first_or_undef [] = JUndef"
| "first_or_undef (x # xs) = x"

section \<open>The platform\<close>

text \<open>
  \<open>JSON.parse\<close> and \<open>new URL\<close> belong to the browser, not to the repository: the program
  is modelled over any such pair. \<open>None\<close> is the exception either of them throws.
  \<open>cannot_convert\<close> and \<open>not_a_function\<close> are the messages that the engine gives to the
  two TypeErrors.
\<close>

record url =
  pathname :: string
  search :: string

record platform =
  json_parse :: "string \<Rightarrow> json option"
  url_parse :: "string \<Rightarrow> url option"
  cannot_convert :: string
  not_a_function :: string

definition exn_message :: "platform \<Rightarrow> exn \<Rightarrow> string" where
  \<comment> \<open>\<open>err.message\<close>\<close>
  "exn_message env e = (case e of CannotConvert \<Rightarrow> cannot_convert env | NotAFunction \<Rightarrow> not_a_function env)"

section \<open>Continuation address resolver\<close>

definition toProxied :: "platform \<Rightarrow> string \<Rightarrow> string" where
  "toProxied env urlOrPath =
     (case url_parse env urlOrPath of
        Some u \<Rightarrow> ''/api'' @ pathname u @ search u
      | None \<Rightarrow>
          if startsWith urlOrPath ''/api'' then urlOrPath
          else ''/api'' @ (if startsWith urlOrPath ''/'' then '''' else ''/'') @ urlOrPath)"

section \<open>Coercion of the image list\<close>

definition strings_of :: "json list \<Rightarrow> string list option" where
  \<comment> \<open>\<open>arr.map(String)\<close>: it fails at the first element whose conversion fails\<close>
  "strings_of arr = those (map js_String arr)"

definition clean_list :: "json list \<Rightarrow> string list option" where
  \<comment> \<open>\<open>arr.map((s) => String(s).trim()).filter(Boolean)\<close>\<close>
  "clean_list arr = map_option (\<lambda>ss. filter (\<lambda>s. s \<noteq> []) (map trim ss)) (strings_of arr)"

definition comma_fallback :: "string \<Rightarrow> string list" where
  "comma_fallback asStr =
     filter (\<lambda>s. s \<noteq> [])
       (map (\<lambda>s. trim (strip_last CHR 0x22 (strip_first CHR 0x22 s)))
         (split_commas (strip_last CHR '']'' (strip_first CHR ''['' asStr))))"

definition normalizeImages :: "platform \<Rightarrow> json \<Rightarrow> string list option" where
  \<comment> \<open>\<open>None\<close>: the call throws \<open>CannotConvert\<close>. The two conversions of lines 51 and 53
      are outside the \<open>try\<close>; a failure of \<open>JSON.parse\<close> or of a conversion at line 58 is
      caught there and leads to the comma split.\<close>
  "normalizeImages env imagesField =
     (if \<not> truthy imagesField then Some []
      else case imagesField of
        JArr arr \<Rightarrow> clean_list arr
      | _ \<Rightarrow>
         (case js_String imagesField of
            None \<Rightarrow> None
          | Some str \<Rightarrow>
             (let asStr = trim str in
              if startsWith asStr ''['' \<and> endsWith asStr '']'' then
                (case json_parse env asStr of
                   Some (JArr arr) \<Rightarrow>
                     (case clean_list arr of
                        Some xs \<Rightarrow> Some xs
                      | None \<Rightarrow> Some (comma_fallback asStr))
                 | _ \<Rightarrow> Some (comma_fallback asStr))
              else Some (comma_fallback asStr))))"

definition coerceRootFromAny :: "json \<Rightarrow> json" where
  "coerceRootFromAny data =
     (case data of
        JArr xs \<Rightarrow> (let x = first_or_undef xs in if nullish x then JObj [] else x)
      | _ \<Rightarrow> if nullish data then JObj [] else data)"

section \<open>Session state\<close>

datatype tab = Trigger | UploadStyle | Compose | Review | Results | Finals

datatype status = Idle | Pending | Done | Error

type_synonym deliverable = "(string \<times> string) list"

record selection =
  sel_image :: string
  sel_feedback :: string
  sel_index :: nat

text \<open>
  The state of the component \<open>App\<close>, one field for each \<open>useState\<close>. A \<open>File\<close> is kept by
  its name. \<open>message\<close> is typed \<open>string\<close> in the source but receives whatever value the
  reply holds in its \<open>message\<close> field, so it is a \<^typ>\<open>json\<close> here.
\<close>

record state =
  activeTab :: tab
  resumeUrl :: string
  prompt :: string
  filesDocs :: "string list"
  filesStyle :: "string list"
  isTriggering :: bool
  isUploadingStyle :: bool
  isComposing :: bool
  isSubmittingReview :: bool
  status :: status
  images :: "string list"
  message :: json
  deliverables :: "deliverable list"
  selected :: "string \<rightharpoonup> bool"
  imgFeedback :: "string \<rightharpoonup> string"
  sendingImages :: bool
  finalStatus :: status
  finalMessage :: string
  finalVideos :: "string list"

definition imgKey :: "string \<Rightarrow> nat \<Rightarrow> string" where
  "imgKey src i = src @ ''-'' @ digits i"

subsection \<open>The effect on a change of the image list\<close>




section \<open>Display texts\<close>

text \<open>
  Three characters of the texts shown to the operator lie outside the range of
  \<^typ>\<open>char\<close>: the horizontal ellipsis and the two typographic double quotation marks.
  The texts are only stored, never inspected; the constants below stand for these
  characters.
\<close>

definition ellipsis :: string where
  "ellipsis = ''...''"

definition ldquo :: string where
  "ldquo = [CHR 0x22]"

definition rdquo :: string where
  "rdquo = [CHR 0x22]"

section \<open>Network exchanges\<close>

text \<open>
  A handler is a function of the state it was created in, and of the outcome of each
  \<open>fetch\<close> it awaits: an exception (its \<open>name\<close> and \<open>message\<close>), or a response (\<open>ok\<close>,
  \<open>status\<close>, and the text of the body, taken as read). It returns the state after all its
  updates and the requests it has issued, in order. An exception raised while a handler
  reads a reply ends its \<open>try\<close> block: the updates made before it stay, and the \<open>catch\<close>
  block runs on them.
\<close>

datatype fetched = Thrown string string | Response bool nat string

datatype body =
    NoBody
  | StyleForm "string list"
  | ComposeForm "string list" string
  | ReviewJson string "deliverable list"
  | SelectionsJson string "selection list"

record request =
  meth :: string
  target :: string
  payload :: body

definition or_default :: "string \<Rightarrow> string \<Rightarrow> string" where
  \<comment> \<open>\<open>m || d\<close> on strings\<close>
  "or_default m d = (if m = [] then d else m)"

definition or_else :: "json \<Rightarrow> json \<Rightarrow> json" where
  \<comment> \<open>\<open>a || b\<close>\<close>
  "or_else a b = (if truthy a then a else b)"

definition parse_or_text :: "platform \<Rightarrow> string \<Rightarrow> json" where
  \<comment> \<open>\<open>try { data = JSON.parse(text) } catch { data = text }\<close>\<close>
  "parse_or_text env text = (case json_parse env text of Some v \<Rightarrow> v | None \<Rightarrow> JStr text)"

definition parse_or_null :: "platform \<Rightarrow> string \<Rightarrow> json" where
  \<comment> \<open>\<open>let next = null; try { next = await res.json() } catch {}\<close>\<close>
  "parse_or_null env text = (case json_parse env text of Some v \<Rightarrow> v | None \<Rightarrow> JNull)"

definition first_of :: "json \<Rightarrow> json" where
  \<comment> \<open>\<open>Array.isArray(data) ? data[0] : data\<close>\<close>
  "first_of data = (case data of JArr xs \<Rightarrow> first_or_undef xs | _ \<Rightarrow> data)"

definition root_of :: "json \<Rightarrow> json" where
  \<comment> \<open>\<open>Array.isArray(data) ? (data[0] ?? {}) : (data ?? {})\<close>\<close>
  "root_of data =
     (case data of
        JArr xs \<Rightarrow> (let x = first_or_undef xs in if nullish x then JObj [] else x)
      | _ \<Rightarrow> if nullish data then JObj [] else data)"

definition msg_of :: "json \<Rightarrow> json" where
  \<comment> \<open>\<open>root?.message || ''\<close>\<close>
  "msg_of root = or_else (get_field root ''message'') (JStr [])"

definition status_of :: "json \<Rightarrow> string option" where
  \<comment> \<open>\<open>String(root?.status || '').toLowerCase()\<close>\<close>
  "status_of root = map_option toLowerCase (js_String (or_else (get_field root ''status'') (JStr [])))"

definition adopt_resume :: "json \<Rightarrow> state \<Rightarrow> state option" where
  \<comment> \<open>\<open>if (root.resumeUrl) setResumeUrl(String(root.resumeUrl))\<close>; \<open>None\<close> when the
      conversion throws, before any update\<close>
  "adopt_resume root s =
     (if truthy (get_field root ''resumeUrl'')
      then map_option (\<lambda>a. s\<lparr>resumeUrl := a\<rparr>) (js_String (get_field root ''resumeUrl''))
      else Some s)"

definition set_message_if :: "json \<Rightarrow> state \<Rightarrow> state" where
  \<comment> \<open>\<open>if (msg) setMessage(msg)\<close>\<close>
  "set_message_if msg s = (if truthy msg then s\<lparr>message := msg\<rparr> else s)"

definition caught_message :: "platform \<Rightarrow> exn \<Rightarrow> string \<Rightarrow> state \<Rightarrow> state" where
  \<comment> \<open>\<open>catch (err) { setMessage(err.message || dflt) }\<close>\<close>
  "caught_message env e dflt s = s\<lparr>message := JStr (or_default (exn_message env e) dflt)\<rparr>"

subsection \<open>Deliverables\<close>

fun entries :: "json \<Rightarrow> (string \<times> json) list" where
  \<comment> \<open>\<open>Object.entries(d)\<close>: the members of an object, the elements of an array and the
      characters of a string under their indices, nothing for another value\<close>
  "entries (JObj kv) = kv"
| "entries (JArr xs) = zip (map digits [0..<length xs]) xs"
| "entries (JStr s) = zip (map digits [0..<length s]) (map (\<lambda>c. JStr [c]) s)"
| "entries v = []"

definition normalize_record :: "json \<Rightarrow> deliverable option" where
  \<comment> \<open>the body of the \<open>map\<close> over \<open>DELIVERABLES\<close>: every value is converted, which may
      throw. Assigning a string to the member \<open>__proto__\<close> of \<open>out\<close> reaches the setter of
      the prototype, which ignores it: that member is not copied.\<close>
  "normalize_record d =
     map_option (filter (\<lambda>(k, v). k \<noteq> ''__proto__''))
       (those (map (\<lambda>(k, v). map_option (Pair k) (js_String (if nullish v then JStr [] else v)))
                (entries (or_else d (JObj [])))))"

definition normalize_deliverables :: "json \<Rightarrow> exn + deliverable list" where
  \<comment> \<open>a value that is no array has no method \<open>map\<close>: the call throws \<open>NotAFunction\<close>\<close>
  "normalize_deliverables v =
     (case v of
        JArr ds \<Rightarrow>
          (case those (map normalize_record ds) of
             None \<Rightarrow> Inl CannotConvert
           | Some rs \<Rightarrow> Inr rs)
      | _ \<Rightarrow> Inl NotAFunction)"

definition take_deliverables :: "platform \<Rightarrow> string \<Rightarrow> json \<Rightarrow> state \<Rightarrow> state" where
  \<comment> \<open>what Compose and Review fetch do once \<open>root.DELIVERABLES\<close> is there; \<open>dflt\<close> is the
      message of the handler's \<open>catch\<close>\<close>
  "take_deliverables env dflt root s =
     (case adopt_resume root s of
        None \<Rightarrow> caught_message env CannotConvert dflt s
      | Some s2 \<Rightarrow>
          (case normalize_deliverables (get_field root ''DELIVERABLES'') of
             Inl e \<Rightarrow> caught_message env e dflt s2
           | Inr ds \<Rightarrow> s2\<lparr>deliverables := ds, activeTab := Review\<rparr>))"

section \<open>Step handlers\<close>

text \<open>
  A handler reads the state through the variables of the render that created it, and its
  \<open>set\<close> calls replace fields of the current state. Where a handler calls a second one
  (\<open>fetchReview\<close> from \<open>submitCompose\<close>, \<open>fetchResults\<close> from \<open>sendBackToN8n\<close>), the second
  one belongs to the same render: it still reads the old \<open>resumeUrl\<close>, while its updates
  come after those of the first. The functions \<open>fetchReview_from\<close> and
  \<open>fetchResults_from\<close> therefore take both states, \<open>snap\<close> to read and \<open>cur\<close> to update.
\<close>

definition post_to :: "platform \<Rightarrow> state \<Rightarrow> body \<Rightarrow> request" where
  "post_to env st b = \<lparr>meth = ''POST'', target = toProxied env (resumeUrl st), payload = b\<rparr>"

definition get_from :: "platform \<Rightarrow> state \<Rightarrow> request" where
  "get_from env st = \<lparr>meth = ''GET'', target = toProxied env (resumeUrl st), payload = NoBody\<rparr>"

subsection \<open>Style upload\<close>

definition submitUploadStyle :: "platform \<Rightarrow> state \<Rightarrow> fetched \<Rightarrow> state \<times> request list" where
  "submitUploadStyle env st r =
     (if resumeUrl st = [] then (st, [])
      else
        let s1 = st\<lparr>isUploadingStyle := True, message := JStr []\<rparr>;
            s2 = (case r of
                    Thrown n m \<Rightarrow> s1\<lparr>message := JStr (or_default m ''Upload error'')\<rparr>
                  | Response ok code text \<Rightarrow>
                      if \<not> ok then s1\<lparr>message := JStr (''Upload failed: '' @ digits code)\<rparr>
                      else
                        let next = parse_or_null env text
                        in case (if truthy next then adopt_resume next s1 else Some s1) of
                             None \<Rightarrow> caught_message env CannotConvert ''Upload error'' s1
                           | Some s' \<Rightarrow> s'\<lparr>activeTab := Compose\<rparr>)
        in (s2\<lparr>isUploadingStyle := False\<rparr>, [post_to env st (StyleForm (filesStyle st))]))"

subsection \<open>Review fetch\<close>

definition fetchReview_from :: "platform \<Rightarrow> state \<Rightarrow> state \<Rightarrow> fetched \<Rightarrow> state \<times> request list" where
  "fetchReview_from env snap cur r =
     (if resumeUrl snap = [] then (cur, [])
      else
        let s1 = cur\<lparr>isSubmittingReview := True, message := JStr []\<rparr>;
            s2 = (case r of
                    Thrown n m \<Rightarrow> s1\<lparr>message := JStr (or_default m ''Could not load prompts for review'')\<rparr>
                  | Response ok code text \<Rightarrow>
                      if \<not> ok then s1\<lparr>message := JStr (''Failed to fetch review payload: '' @ digits code)\<rparr>
                      else
                        let data = parse_or_text env text;
                            root = first_of data
                        in if \<not> truthy root \<or> \<not> truthy (get_field root ''DELIVERABLES'')
                           then s1\<lparr>message := JStr ''No DELIVERABLES found in payload''\<rparr>
                           else take_deliverables env ''Could not load prompts for review'' root s1)
        in (s2\<lparr>isSubmittingReview := False\<rparr>, [get_from env snap]))"

definition fetchReview :: "platform \<Rightarrow> state \<Rightarrow> fetched \<Rightarrow> state \<times> request list" where
  "fetchReview env st r = fetchReview_from env st st r"

subsection \<open>Compose\<close>

definition submitCompose_reply :: "platform \<Rightarrow> state \<Rightarrow> string \<Rightarrow> state \<times> bool" where
  \<comment> \<open>\<open>submitCompose\<close> from the reply to its \<open>POST\<close> on: the state, and whether the
      handler goes on to \<open>fetchReview\<close>\<close>
  "submitCompose_reply env s1 text =
     (let next = parse_or_null env text;
          maybeRoot = first_of next
      in if truthy maybeRoot \<and> truthy (get_field maybeRoot ''DELIVERABLES'')
         then (take_deliverables env ''Failed sending files + prompt'' maybeRoot s1, False)
         else
           (case (if truthy next then adopt_resume next s1 else Some s1) of
              None \<Rightarrow> (caught_message env CannotConvert ''Failed sending files + prompt'' s1, False)
            | Some s2 \<Rightarrow> (s2\<lparr>activeTab := Review\<rparr>, True)))"

definition submitCompose :: "platform \<Rightarrow> state \<Rightarrow> fetched \<Rightarrow> fetched \<Rightarrow> state \<times> request list" where
  \<comment> \<open>\<open>r2\<close> is the outcome of the request of \<open>fetchReview\<close>, which is not awaited: it ends
      after the \<open>finally\<close> of this handler\<close>
  "submitCompose env st r1 r2 =
     (if resumeUrl st = [] then (st, [])
      else
        let s1 = st\<lparr>isComposing := True, message := JStr []\<rparr>;
            req = post_to env st (ComposeForm (filesDocs st) (prompt st))
        in case r1 of
             Thrown n m \<Rightarrow>
               (s1\<lparr>message := JStr (or_default m ''Failed sending files + prompt''),
                   isComposing := False\<rparr>, [req])
           | Response ok code text \<Rightarrow>
               if \<not> ok
               then (s1\<lparr>message := JStr (''Compose step failed: '' @ digits code),
                         isComposing := False\<rparr>, [req])
               else
                 (case submitCompose_reply env s1 text of
                    (s2, False) \<Rightarrow> (s2\<lparr>isComposing := False\<rparr>, [req])
                  | (s2, True) \<Rightarrow>
                      (let (s3, reqs) = fetchReview_from env st (s2\<lparr>isComposing := False\<rparr>) r2
                       in (s3, req # reqs))))"

subsection \<open>Results refresh\<close>

definition results_reading ::
  "platform \<Rightarrow> json \<Rightarrow> state \<Rightarrow> (string list \<times> json \<times> status option \<times> state) option" where
  \<comment> \<open>lines 371 to 386 of \<open>fetchResults\<close>: \<open>imgs\<close>, \<open>msg\<close>, \<open>state\<close>, and the state of the
      session after the update of the address, which comes last; \<open>None\<close> when a
      conversion throws, before any update\<close>
  "results_reading env data s1 =
     (if has_key data ''status''
      then
        (case normalizeImages env (get_field data ''images'') of
           None \<Rightarrow> None
         | Some imgs \<Rightarrow>
             (case status_of data of
                None \<Rightarrow> None
              | Some st \<Rightarrow>
                  Some (imgs, msg_of data,
                        Some (if st = ''done'' then Done else if st = ''error'' then Error else Pending),
                        s1)))
      else
        let root = coerceRootFromAny data
        in case normalizeImages env (get_field root ''images'') of
             None \<Rightarrow> None
           | Some imgs \<Rightarrow>
               (case adopt_resume root s1 of
                  None \<Rightarrow> None
                | Some s \<Rightarrow>
                    Some (imgs, msg_of root,
                          (if truthy (get_field root ''ok'') then Some Done else None), s)))"

definition fetchResults_from :: "platform \<Rightarrow> state \<Rightarrow> state \<Rightarrow> fetched \<Rightarrow> state \<times> request list" where
  "fetchResults_from env snap cur r =
     (if resumeUrl snap = [] then (cur, [])
      else
        let s1 = cur\<lparr>status := Pending\<rparr>;
            failed = (\<lambda>m. s1\<lparr>status := Error, message := JStr (or_default m ''Polling failed'')\<rparr>);
            s2 = (case r of
                    Thrown n m \<Rightarrow> if n = ''AbortError'' then s1 else failed m
                  | Response ok code text \<Rightarrow>
                      if \<not> ok then failed (''Polling error: '' @ digits code)
                      else
                        (case results_reading env (parse_or_text env text) s1 of
                           None \<Rightarrow> failed (exn_message env CannotConvert)
                         | Some (imgs, msg, state, s) \<Rightarrow>
                             if state = Some Error
                             then s\<lparr>status := Error,
                                    message := or_else msg (JStr ''An error occurred in the workflow'')\<rparr>
                             else if imgs \<noteq> []
                             then set_message_if msg (s\<lparr>images := imgs, status := Done\<rparr>)
                             else
                               let s' = s\<lparr>status := (case state of Some x \<Rightarrow> x | None \<Rightarrow> Pending)\<rparr>
                               in if \<not> truthy msg
                                  then s'\<lparr>message := JStr (''Waiting for images from n8n'' @ ellipsis)\<rparr>
                                  else s'))
        in (s2, [get_from env snap]))"

definition fetchResults :: "platform \<Rightarrow> state \<Rightarrow> fetched \<Rightarrow> state \<times> request list" where
  "fetchResults env st r = fetchResults_from env st st r"

subsection \<open>Review submit\<close>

definition sendBackToN8n_reply :: "platform \<Rightarrow> state \<Rightarrow> string \<Rightarrow> state \<times> bool" where
  \<comment> \<open>\<open>sendBackToN8n\<close> from the reply to its \<open>POST\<close> on: the state, and whether the handler
      goes on to \<open>fetchResults\<close>. The conversions of lines 316, 318 and 320 may throw; the
      \<open>catch\<close> of line 349 then sets the message only.\<close>
  "sendBackToN8n_reply env s1 text =
     (let data = parse_or_text env text;
          root = root_of data
      in case adopt_resume root s1 of
           None \<Rightarrow> (caught_message env CannotConvert ''Submission error'' s1, False)
         | Some s2 \<Rightarrow>
             (case normalizeImages env (get_field root ''images'') of
                None \<Rightarrow> (caught_message env CannotConvert ''Submission error'' s2, False)
              | Some imgs \<Rightarrow>
                  (let msg = msg_of root
                   in case status_of root of
                        None \<Rightarrow> (caught_message env CannotConvert ''Submission error'' s2, False)
                      | Some st \<Rightarrow>
                          if imgs \<noteq> []
                          then ((set_message_if msg (s2\<lparr>images := imgs, status := Done\<rparr>))
                                  \<lparr>activeTab := Results\<rparr>, False)
                          else if st = ''done''
                          then ((set_message_if msg (s2\<lparr>status := Done\<rparr>))\<lparr>activeTab := Results\<rparr>, False)
                          else if st = ''error''
                          then (s2\<lparr>status := Error,
                                    message := or_else msg (JStr ''An error occurred in the workflow''),
                                    activeTab := Results\<rparr>, False)
                          else (s2\<lparr>activeTab := Results\<rparr>, True))))"

definition sendBackToN8n :: "platform \<Rightarrow> state \<Rightarrow> fetched \<Rightarrow> fetched \<Rightarrow> state \<times> request list" where
  \<comment> \<open>\<open>r2\<close> is the outcome of the request of \<open>fetchResults\<close>, if the handler gets there\<close>
  "sendBackToN8n env st r1 r2 =
     (if resumeUrl st = [] then (st, [])
      else if isSubmittingReview st then (st, [])
      else
        let s1 = st\<lparr>isSubmittingReview := True, message := JStr []\<rparr>;
            req = post_to env st (ReviewJson (resumeUrl st) (deliverables st))
        in case r1 of
             Thrown n m \<Rightarrow>
               (s1\<lparr>message := JStr (or_default m ''Submission error''),
                   isSubmittingReview := False\<rparr>, [req])
           | Response ok code text \<Rightarrow>
               if \<not> ok
               then (s1\<lparr>message := JStr (''Failed to submit review: '' @ digits code),
                         isSubmittingReview := False\<rparr>, [req])
               else
                 (case sendBackToN8n_reply env s1 text of
                    (s2, False) \<Rightarrow> (s2\<lparr>isSubmittingReview := False\<rparr>, [req])
                  | (s2, True) \<Rightarrow>
                      (let (s3, reqs) = fetchResults_from env st s2 r2
                       in (s3\<lparr>isSubmittingReview := False\<rparr>, req # reqs))))"

subsection \<open>Selections\<close>

definition selections :: "state \<Rightarrow> selection list" where
  \<comment> \<open>\<open>images.map((src, i) => ...).filter(Boolean)\<close>, the same in both handlers\<close>
  "selections st =
     List.map_filter
       (\<lambda>(i, src).
          let k = imgKey src i
          in if selected st k \<noteq> Some True then None
             else Some \<lparr>sel_image = src,
                        sel_feedback = trim (case imgFeedback st k of Some f \<Rightarrow> f | None \<Rightarrow> []),
                        sel_index = i\<rparr>)
       (enumerate 0 (images st))"

subsection \<open>Results submit\<close>

definition responded :: "nat \<Rightarrow> string \<Rightarrow> string" where
  "responded code txt = trim (''n8n responded '' @ digits code @ ''. '' @ txt)"

definition sendSelectedImagesBack :: "platform \<Rightarrow> state \<Rightarrow> fetched \<Rightarrow> state \<times> request list" where
  "sendSelectedImagesBack env st r =
     (if resumeUrl st = [] then (st, [])
      else if selections st = []
      then (st\<lparr>message := JStr ''Select at least one image before sending.''\<rparr>, [])
      else
        let s1 = st\<lparr>sendingImages := True, message := JStr [], status := Pending\<rparr>;
            failed = (\<lambda>m s. s\<lparr>status := Error,
                                message := JStr (or_default m ''Failed to send selected images'')\<rparr>);
            s2 = (case r of
                    Thrown n m \<Rightarrow> failed m s1
                  | Response ok code raw \<Rightarrow>
                      if \<not> ok then s1\<lparr>status := Error, message := JStr (responded code raw)\<rparr>
                      else
                        let data = parse_or_text env raw;
                            root = root_of data
                        in case adopt_resume root s1 of
                             None \<Rightarrow> failed (exn_message env CannotConvert) s1
                           | Some s \<Rightarrow>
                               (case normalizeImages env (get_field root ''images'') of
                                  None \<Rightarrow> failed (exn_message env CannotConvert) s
                                | Some imgs \<Rightarrow>
                                    (let msg = msg_of root
                                     in case status_of root of
                                          None \<Rightarrow> failed (exn_message env CannotConvert) s
                                        | Some st' \<Rightarrow>
                                            if st' = ''error''
                                            then s\<lparr>status := Error,
                                                   message := or_else msg (JStr ''Workflow reported an error.'')\<rparr>
                                            else if imgs \<noteq> []
                                            then (set_message_if msg (s\<lparr>images := imgs, status := Done\<rparr>))
                                                   \<lparr>activeTab := Results\<rparr>
                                            else s\<lparr>status := Pending,
                                                   message := or_else msg
                                                     (JStr (''Waiting for images from n8n'' @ ellipsis))\<rparr>)))
        in (s2\<lparr>sendingImages := False\<rparr>,
            [post_to env st (SelectionsJson (resumeUrl st) (selections st))]))"

subsection \<open>Finals request\<close>

definition min_found :: "int list \<Rightarrow> int option" where
  \<comment> \<open>\<open>Math.min(...xs.filter(i => i !== -1))\<close>; \<open>None\<close> is \<open>Infinity\<close>, the minimum of
      nothing\<close>
  "min_found xs = (case filter (\<lambda>i. i \<noteq> -1) xs of [] \<Rightarrow> None | y # ys \<Rightarrow> Some (fold min ys y))"

definition embedded :: "string \<Rightarrow> string option" where
  \<comment> \<open>the text from the first opening bracket or brace to the last closing one, when
      \<open>start >= 0 && end > start\<close>\<close>
  "embedded raw =
     (let start = min_found (map (indexOf raw) [CHR ''['', CHR ''{'']);
          end = max (lastIndexOf raw CHR '']'') (lastIndexOf raw CHR ''}'')
      in case start of
           None \<Rightarrow> None
         | Some b \<Rightarrow> if b \<ge> 0 \<and> end > b then Some (slice raw (nat b) (nat (end + 1))) else None)"

definition finals_data :: "platform \<Rightarrow> string \<Rightarrow> json" where
  \<comment> \<open>\<open>data\<close> after the two attempts to parse; it starts as \<open>null\<close>\<close>
  "finals_data env raw =
     (case json_parse env raw of
        Some v \<Rightarrow> v
      | None \<Rightarrow>
          (case embedded raw of
             None \<Rightarrow> JNull
           | Some t \<Rightarrow> (case json_parse env t of Some v \<Rightarrow> v | None \<Rightarrow> JNull)))"

definition finals_root :: "json \<Rightarrow> json" where
  \<comment> \<open>\<open>Array.isArray(data) ? (data[0] ?? {}) : data\<close>\<close>
  "finals_root data =
     (case data of
        JArr xs \<Rightarrow> (let x = first_or_undef xs in if nullish x then JObj [] else x)
      | _ \<Rightarrow> data)"

definition resume_shaped :: "string \<Rightarrow> bool" where
  \<comment> \<open>\<open>/^(https?:\/\/|\/)/i.test(s)\<close>\<close>
  "resume_shaped s = (matches_at_ci ''http://'' s \<or> matches_at_ci ''https://'' s \<or> matches_at_ci ''/'' s)"

definition is_placeholder :: "string \<Rightarrow> bool" where
  \<comment> \<open>\<open>/\[filled at execution time\]/i.test(s)\<close>\<close>
  "is_placeholder s = test_ci ''[filled at execution time]'' s"

definition pickList :: "platform \<Rightarrow> json \<Rightarrow> string list option" where
  \<comment> \<open>\<open>None\<close>: \<open>val.map(String)\<close> throws \<open>CannotConvert\<close>. For a string, the conversion
      of the parsed elements is inside the \<open>try\<close>: its failure leads to the comma split.\<close>
  "pickList env val =
     (case val of
        JArr xs \<Rightarrow> map_option (filter (\<lambda>s. s \<noteq> [])) (strings_of xs)
      | JStr s \<Rightarrow>
          (case json_parse env s of
             Some (JArr arr) \<Rightarrow>
               (case strings_of arr of
                  Some ss \<Rightarrow> Some (filter (\<lambda>s. s \<noteq> []) ss)
                | None \<Rightarrow> Some (filter (\<lambda>s. s \<noteq> []) (map trim (split_commas s))))
           | _ \<Rightarrow> Some (filter (\<lambda>s. s \<noteq> []) (map trim (split_commas s))))
      | _ \<Rightarrow> Some [])"

definition array_truthy :: "string list \<Rightarrow> bool" where
  \<comment> \<open>an array is an object: it is truthy, also when it is empty\<close>
  "array_truthy xs = True"

definition or_list :: "string list option \<Rightarrow> string list option \<Rightarrow> string list option" where
  \<comment> \<open>\<open>a || b\<close> on arrays: \<open>b\<close> is evaluated, and may throw, only if \<open>a\<close> is falsy\<close>
  "or_list a b = (case a of None \<Rightarrow> None | Some xs \<Rightarrow> if array_truthy xs then Some xs else b)"

definition finals_videos :: "platform \<Rightarrow> json \<Rightarrow> string list option" where
  "finals_videos env root =
     or_list (pickList env (get_field root ''videos''))
       (or_list (pickList env (get_field root ''VIDEOS''))
         (or_list (pickList env (get_field root ''media''))
           (or_list (pickList env (get_field root ''urls'')) (Some []))))"

definition workflow_started_text :: string where
  "workflow_started_text =
     ''Got '' @ ldquo @ ''Workflow was started'' @ rdquo
       @ ''. Ensure POST hits /webhook-wait/ and Webhook uses '' @ ldquo @ ''Respond to Webhook'' @ rdquo @ ''.''"

definition parse_failure_text :: string where
  "parse_failure_text = ''Could not parse response JSON from n8n.''"

definition finals_reply :: "platform \<Rightarrow> state \<Rightarrow> json \<Rightarrow> state" where
  \<comment> \<open>lines 537 to 575 of \<open>sendImagesForFinals\<close>, for a reply that parsed to a truthy
      value. A conversion that throws leads to the \<open>catch\<close> of line 573, after the update
      of the address if that came first.\<close>
  "finals_reply env s1 data =
     (let root = finals_root data;
          failed = (\<lambda>s. s\<lparr>finalStatus := Error,
                            finalMessage := or_default (exn_message env CannotConvert) ''Failed to request videos''\<rparr>)
      in case js_String (or_else (get_field root ''resumeUrl'') (JStr [])) of
           None \<Rightarrow> failed s1
         | Some maybeResume \<Rightarrow>
             (let s = (if resume_shaped maybeResume \<and> \<not> is_placeholder maybeResume
                       then s1\<lparr>resumeUrl := maybeResume\<rparr> else s1)
              in case finals_videos env root of
                   None \<Rightarrow> failed s
                 | Some videos \<Rightarrow>
                     (case js_String (or_else (get_field root ''message'') (JStr [])) of
                        None \<Rightarrow> failed s
                      | Some msg \<Rightarrow>
                          (case status_of root of
                             None \<Rightarrow> failed s
                           | Some st' \<Rightarrow>
                               (let ok' = truthy (get_field root ''ok'')
                                in if (array_truthy videos \<and> length videos > 0) \<or> ok' \<or> st' = ''done''
                                   then s\<lparr>finalVideos := (if array_truthy videos then videos else []),
                                          finalStatus := Done,
                                          finalMessage :=
                                            or_default msg
                                              (if length videos \<noteq> 0
                                               then ''Received '' @ digits (length videos) @ '' video(s).''
                                               else ''Done.'')\<rparr>
                                   else s\<lparr>finalStatus := Pending,
                                          finalMessage :=
                                            or_default msg (''Waiting for videos from n8n'' @ ellipsis)\<rparr>)))))"

definition sendImagesForFinals :: "platform \<Rightarrow> state \<Rightarrow> fetched \<Rightarrow> state \<times> request list" where
  "sendImagesForFinals env st r =
     (if resumeUrl st = [] then (st, [])
      else if selections st = []
      then (st\<lparr>message := JStr ''Select at least one image before sending.''\<rparr>, [])
      else
        let s1 = st\<lparr>activeTab := Finals, finalStatus := Pending,
                    finalMessage := ''Generating videos from selected images'' @ ellipsis\<rparr>;
            s2 = (case r of
                    Thrown n m \<Rightarrow>
                      s1\<lparr>finalStatus := Error, finalMessage := or_default m ''Failed to request videos''\<rparr>
                  | Response ok code raw \<Rightarrow>
                      if \<not> ok then s1\<lparr>finalStatus := Error, finalMessage := responded code raw\<rparr>
                      else
                        let data = finals_data env raw
                        in if \<not> truthy data
                           then (if test_ci ''Workflow was started'' raw
                                 then s1\<lparr>finalStatus := Error, finalMessage := workflow_started_text\<rparr>
                                 else s1\<lparr>finalStatus := Error, finalMessage := parse_failure_text\<rparr>)
                           else finals_reply env s1 data)
        in (s2, [post_to env st (SelectionsJson (resumeUrl st) (selections st))]))"

section \<open>Terms of the claims\<close>


definition supplied_address :: "json \<Rightarrow> string option" where
  \<comment> \<open>the continuation address that a reply supplies in its field \<open>resumeUrl\<close>, when that
      is a truthy value that converts to a string other than a placeholder\<close>
  "supplied_address root =
     (let v = get_field root ''resumeUrl''
      in if truthy v
         then (case js_String v of
                 Some a \<Rightarrow> if is_placeholder a then None else Some a
               | None \<Rightarrow> None)
         else None)"

section \<open>A sample platform\<close>

text \<open>
  The parsers of the browser at the inputs that the examples below use: each text with
  the value that \<open>JSON.parse\<close> gives for it, each address with the path and the query
  that \<open>new URL\<close> gives for it; every other input is rejected.
\<close>

definition quoted :: "string \<Rightarrow> string" where
  "quoted s = CHR 0x22 # s @ [CHR 0x22]"

definition json_member :: "string \<Rightarrow> string \<Rightarrow> string" where
  "json_member k v = quoted k @ '':'' @ v"

definition txt_done :: string where
  "txt_done = ''{'' @ json_member ''status'' (quoted ''done'') @ ''}''"

definition txt_done_wrapped :: string where
  "txt_done_wrapped = ''['' @ txt_done @ '']''"

definition txt_next :: string where
  "txt_next = ''{'' @ json_member ''resumeUrl'' (quoted ''/webhook-wait/2'') @ ''}''"

definition txt_next_wrapped :: string where
  "txt_next_wrapped = ''['' @ txt_next @ '']''"

definition txt_pending_next :: string where
  "txt_pending_next =
     ''{'' @ json_member ''status'' (quoted ''pending'') @ '','' @ json_member ''resumeUrl'' (quoted ''/webhook-wait/2'') @ ''}''"

definition txt_placeholder :: string where
  "txt_placeholder = ''{'' @ json_member ''resumeUrl'' (quoted ''[filled at execution time]'') @ ''}''"

definition txt_media :: string where
  "txt_media = ''{'' @ json_member ''media'' (''['' @ quoted ''y'' @ '']'') @ ''}''"

definition txt_deliverables :: string where
  "txt_deliverables =
     ''{'' @ json_member ''DELIVERABLES'' (''[{'' @ json_member ''Scene Description'' (quoted ''x'') @ ''}]'')
       @ '','' @ json_member ''resumeUrl'' (quoted ''/webhook-wait/2'') @ ''}''"

definition txt_bad_status :: string where
  "txt_bad_status = ''{'' @ json_member ''status'' (''{'' @ json_member ''toString'' ''1'' @ ''}'') @ ''}''"

definition txt_images_bad_status :: string where
  "txt_images_bad_status =
     ''{'' @ json_member ''images'' (''['' @ quoted ''a'' @ '']'') @ '',''
       @ json_member ''status'' (''{'' @ json_member ''toString'' ''1'' @ ''}'') @ ''}''"

definition next_members :: "(string \<times> json) list" where
  "next_members = [(''resumeUrl'', JStr ''/webhook-wait/2'')]"

definition sample_json :: "string \<Rightarrow> json option" where
  "sample_json = map_of
     [(txt_done, JObj [(''status'', JStr ''done'')]),
      (txt_done_wrapped, JArr [JObj [(''status'', JStr ''done'')]]),
      (txt_next, JObj next_members),
      (txt_next_wrapped, JArr [JObj next_members]),
      (txt_pending_next, JObj [(''status'', JStr ''pending''), (''resumeUrl'', JStr ''/webhook-wait/2'')]),
      (txt_placeholder, JObj [(''resumeUrl'', JStr ''[filled at execution time]'')]),
      (txt_media, JObj [(''media'', JArr [JStr ''y''])]),
      (txt_bad_status, JObj [(''status'', JObj [(''toString'', JNum 1)])]),
      (txt_images_bad_status,
         JObj [(''images'', JArr [JStr ''a'']), (''status'', JObj [(''toString'', JNum 1)])]),
      (txt_deliverables,
         JObj [(''DELIVERABLES'', JArr [JObj [(''Scene Description'', JStr ''x'')]]),
               (''resumeUrl'', JStr ''/webhook-wait/2'')])]"

definition sample_url :: "string \<Rightarrow> url option" where
  "sample_url = map_of
     [(''https://host.example/webhook-wait/abc?x=1'',
       \<lparr>pathname = ''/webhook-wait/abc'', search = ''?x=1''\<rparr>)]"

definition sample_env :: platform where
  "sample_env = \<lparr>json_parse = sample_json, url_parse = sample_url,
                  cannot_convert = ''Cannot convert object to primitive value'',
                  not_a_function = ''root.DELIVERABLES.map is not a function''\<rparr>"

definition picked_state :: state where
  \<comment> \<open>on the Results step, three images, the second one selected\<close>
  "picked_state =
     \<lparr>activeTab = Results, resumeUrl = ''/webhook-wait/1'', prompt = [], filesDocs = [],
      filesStyle = [], isTriggering = False, isUploadingStyle = False, isComposing = False,
      isSubmittingReview = False, status = Done, images = [''a'', ''b'', ''c''], message = JStr [],
      deliverables = [], selected = [''a-0'' \<mapsto> False, ''b-1'' \<mapsto> True, ''c-2'' \<mapsto> False],
      imgFeedback = [''a-0'' \<mapsto> [], ''b-1'' \<mapsto> ''  more light '', ''c-2'' \<mapsto> []],
      sendingImages = False, finalStatus = Idle, finalMessage = [], finalVideos = []\<rparr>"



section \<open>The resolver\<close>

text \<open>
  C8. The resolver is idempotent on relative addresses that already carry the local
  prefix: if \<open>x\<close> does not parse as an absolute address and starts with \<open>/api\<close>, resolving
  it twice gives what resolving it once gives.
\<close>

theorem toProxied_idempotent:
  assumes "url_parse env x = None" and "startsWith x ''/api''"
  shows "toProxied env (toProxied env x) = toProxied env x"
proof -
  have "toProxied env x = x" using assms by (simp add: toProxied_def)
  then show ?thesis by simp
qed

theorem toProxied_idempotent_witness:
  "url_parse sample_env ''/api/webhook-wait/abc'' = None \<and>
   startsWith ''/api/webhook-wait/abc'' ''/api'' \<and>
   toProxied sample_env (toProxied sample_env ''/api/webhook-wait/abc'') = ''/api/webhook-wait/abc''"
proof -
  have p: "url_parse sample_env ''/api/webhook-wait/abc'' = None"
    by (simp add: sample_env_def sample_url_def)
  have s: "startsWith ''/api/webhook-wait/abc'' ''/api''"
    by (simp add: startsWith_def)
  have "toProxied sample_env ''/api/webhook-wait/abc'' = ''/api/webhook-wait/abc''"
    using p s by (simp add: toProxied_def)
  with toProxied_idempotent [OF p s] p s show ?thesis by simp
qed

text \<open>
  C9. For an input that parses as an absolute address, the resolver returns the local
  prefix followed by the path and the query of the address; scheme and host are gone. For
  \<open>https://host.example/webhook-wait/abc?x=1\<close>, whose path is \<open>/webhook-wait/abc\<close> and
  whose query is \<open>?x=1\<close>, that is \<open>/api/webhook-wait/abc?x=1\<close>.
\<close>

theorem toProxied_absolute:
  "(url_parse env x = Some u \<longrightarrow> toProxied env x = ''/api'' @ pathname u @ search u) \<and>
   (url_parse env ''https://host.example/webhook-wait/abc?x=1''
      = Some \<lparr>pathname = ''/webhook-wait/abc'', search = ''?x=1''\<rparr> \<longrightarrow>
    toProxied env ''https://host.example/webhook-wait/abc?x=1'' = ''/api/webhook-wait/abc?x=1'')"
  by (simp add: toProxied_def)

theorem toProxied_absolute_witness:
  "url_parse sample_env ''https://host.example/webhook-wait/abc?x=1''
     = Some \<lparr>pathname = ''/webhook-wait/abc'', search = ''?x=1''\<rparr> \<and>
   toProxied sample_env ''https://host.example/webhook-wait/abc?x=1'' = ''/api/webhook-wait/abc?x=1''"
proof -
  have p: "url_parse sample_env ''https://host.example/webhook-wait/abc?x=1''
             = Some \<lparr>pathname = ''/webhook-wait/abc'', search = ''?x=1''\<rparr>"
    by (simp add: sample_env_def sample_url_def)
  from toProxied_absolute [of sample_env "''https://host.example/webhook-wait/abc?x=1''"
      "\<lparr>pathname = ''/webhook-wait/abc'', search = ''?x=1''\<rparr>"] p
  show ?thesis by simp
qed

section \<open>The image list\<close>













section \<open>Selection and feedback maps\<close>










section \<open>Selections\<close>

lemma enumerate_nth: "enumerate 0 xs = map (\<lambda>i. (i, xs ! i)) [0..<length xs]"
  by (rule nth_equalityI) (simp_all add: nth_enumerate_eq)

lemma selections_nth:
  "selections st =
     map (\<lambda>i. \<lparr>sel_image = images st ! i,
               sel_feedback = trim (case imgFeedback st (imgKey (images st ! i) i) of Some f \<Rightarrow> f | None \<Rightarrow> []),
               sel_index = i\<rparr>)
       (filter (\<lambda>i. selected st (imgKey (images st ! i) i) = Some True) [0..<length (images st)])"
  unfolding selections_def List.map_filter_def enumerate_nth
  by (simp add: filter_map o_def Let_def cong: if_cong)

lemma selections_three:
  assumes "images st = [a, b, c]"
    and "selected st (imgKey a 0) \<noteq> Some True"
    and "selected st (imgKey b 1) = Some True"
    and "selected st (imgKey c 2) \<noteq> Some True"
  shows "selections st =
     [\<lparr>sel_image = b,
       sel_feedback = trim (case imgFeedback st (imgKey b 1) of Some f \<Rightarrow> f | None \<Rightarrow> []),
       sel_index = 1\<rparr>]"
proof -
  have "[0..<length (images st)] = [0, Suc 0, Suc (Suc 0)]"
    using assms(1) by (simp add: upt_rec)
  then show ?thesis using assms by (simp add: selections_nth numeral_2_eq_2)
qed

lemma selections_posted:
  assumes "resumeUrl st \<noteq> []" and "selections st \<noteq> []"
  shows "map payload (snd (sendSelectedImagesBack env st r)) = [SelectionsJson (resumeUrl st) (selections st)]"
    and "map payload (snd (sendImagesForFinals env st r)) = [SelectionsJson (resumeUrl st) (selections st)]"
  using assms by (simp_all add: sendSelectedImagesBack_def sendImagesForFinals_def post_to_def Let_def)

text \<open>
  C6. The selections are computed by going through the image list in order: one entry for
  each position whose key is selected, with the image at that position, the feedback of
  that key trimmed, and the position as index; the other images have no entry. For three
  images of which only the one at index 1 is selected, there is exactly one entry, with
  index 1 and the trimmed feedback. Results submit and Finals request send exactly this
  list in their request.
\<close>

theorem selections_sent:
  "selections st =
     map (\<lambda>i. \<lparr>sel_image = images st ! i,
               sel_feedback = trim (case imgFeedback st (imgKey (images st ! i) i) of Some f \<Rightarrow> f | None \<Rightarrow> []),
               sel_index = i\<rparr>)
       (filter (\<lambda>i. selected st (imgKey (images st ! i) i) = Some True) [0..<length (images st)]) \<and>
   (images st = [a, b, c] \<and> selected st (imgKey a 0) \<noteq> Some True \<and>
    selected st (imgKey b 1) = Some True \<and> selected st (imgKey c 2) \<noteq> Some True \<longrightarrow>
    selections st =
      [\<lparr>sel_image = b,
        sel_feedback = trim (case imgFeedback st (imgKey b 1) of Some f \<Rightarrow> f | None \<Rightarrow> []),
        sel_index = 1\<rparr>]) \<and>
   (resumeUrl st \<noteq> [] \<and> selections st \<noteq> [] \<longrightarrow>
    map payload (snd (sendSelectedImagesBack env st r)) = [SelectionsJson (resumeUrl st) (selections st)] \<and>
    map payload (snd (sendImagesForFinals env st r)) = [SelectionsJson (resumeUrl st) (selections st)])"
  using selections_nth [of st] selections_three [of st a b c] selections_posted [of st env r]
  by blast

theorem selections_sent_witness:
  "images picked_state = [''a'', ''b'', ''c''] \<and>
   selected picked_state (imgKey ''a'' 0) \<noteq> Some True \<and>
   selected picked_state (imgKey ''b'' 1) = Some True \<and>
   selected picked_state (imgKey ''c'' 2) \<noteq> Some True \<and>
   resumeUrl picked_state \<noteq> [] \<and>
   selections picked_state = [\<lparr>sel_image = ''b'', sel_feedback = ''more light'', sel_index = 1\<rparr>] \<and>
   map payload (snd (sendSelectedImagesBack sample_env picked_state (Response True 200 txt_next)))
     = [SelectionsJson ''/webhook-wait/1''
          [\<lparr>sel_image = ''b'', sel_feedback = ''more light'', sel_index = 1\<rparr>]]"
proof -
  have i: "images picked_state = [''a'', ''b'', ''c'']" by (simp add: picked_state_def)
  have a: "selected picked_state (imgKey ''a'' 0) \<noteq> Some True" by code_simp
  have b: "selected picked_state (imgKey ''b'' 1) = Some True" by code_simp
  have c: "selected picked_state (imgKey ''c'' 2) \<noteq> Some True" by code_simp
  have u: "resumeUrl picked_state = ''/webhook-wait/1''" by (simp add: picked_state_def)
  have f: "trim (case imgFeedback picked_state (imgKey ''b'' 1) of Some f \<Rightarrow> f | None \<Rightarrow> []) = ''more light''"
    by code_simp
  from selections_sent [of picked_state "''a''" "''b''" "''c''"] i a b c
  have "selections picked_state =
      [\<lparr>sel_image = ''b'',
        sel_feedback = trim (case imgFeedback picked_state (imgKey ''b'' 1) of Some f \<Rightarrow> f | None \<Rightarrow> []),
        sel_index = 1\<rparr>]"
    by blast
  with f have s: "selections picked_state = [\<lparr>sel_image = ''b'', sel_feedback = ''more light'', sel_index = 1\<rparr>]"
    by simp
  from selections_sent [of picked_state "''a''" "''b''" "''c''" sample_env "Response True 200 txt_next"] s u
  have "map payload (snd (sendSelectedImagesBack sample_env picked_state (Response True 200 txt_next)))
     = [SelectionsJson ''/webhook-wait/1''
          [\<lparr>sel_image = ''b'', sel_feedback = ''more light'', sel_index = 1\<rparr>]]"
    by simp
  with i a b c u s show ?thesis by simp
qed

section \<open>Finals request\<close>

lemma finals_videos_first: "finals_videos env root = pickList env (get_field root ''videos'')"
  by (simp add: finals_videos_def or_list_def array_truthy_def split: option.splits)

text \<open>
  C2 holds where the field \<open>videos\<close> yields a list that is not empty, and fails otherwise:
  an empty array is truthy, so the chain of \<open>||\<close> always stops at its first operand,
  \<open>pickList(root.videos)\<close>. For \<open>{"media":["y"]}\<close> the video list is empty, and the handler
  reports Pending.
\<close>

theorem finals_videos_media_ignored:
  "finals_videos env (JObj [(''videos'', JArr [JStr ''x'']), (''media'', JArr [JStr ''y''])]) = Some [''x''] \<and>
   finals_videos env (JObj [(''media'', JArr [JStr ''y''])]) = Some [] \<and>
   finals_videos env (JObj [(''videos'', JArr []), (''media'', JArr [JStr ''y''])]) = Some [] \<and>
   finalVideos (fst (sendImagesForFinals sample_env picked_state (Response True 200 txt_media))) = [] \<and>
   finalStatus (fst (sendImagesForFinals sample_env picked_state (Response True 200 txt_media))) = Pending"
proof -
  have "finalVideos (fst (sendImagesForFinals sample_env picked_state (Response True 200 txt_media))) = []"
    by code_simp
  moreover
  have "finalStatus (fst (sendImagesForFinals sample_env picked_state (Response True 200 txt_media))) = Pending"
    by code_simp
  ultimately show ?thesis by (simp add: finals_videos_first pickList_def strings_of_def)
qed



section \<open>Review submit\<close>











section \<open>Replies wrapped in a list\<close>

lemma unwrap_one:
  "first_of (JArr [JObj kv]) = JObj kv" "first_of (JObj kv) = JObj kv"
  "root_of (JArr [JObj kv]) = JObj kv" "root_of (JObj kv) = JObj kv"
  "finals_root (JArr [JObj kv]) = JObj kv" "finals_root (JObj kv) = JObj kv"
  "coerceRootFromAny (JArr [JObj kv]) = JObj kv" "coerceRootFromAny (JObj kv) = JObj kv"
  by (simp_all add: first_of_def root_of_def finals_root_def coerceRootFromAny_def)

lemma wrapped_data:
  assumes "json_parse env t1 = Some (JArr [JObj kv])" and "json_parse env t2 = Some (JObj kv)"
  shows "parse_or_text env t1 = JArr [JObj kv]" "parse_or_text env t2 = JObj kv"
    "parse_or_null env t1 = JArr [JObj kv]" "parse_or_null env t2 = JObj kv"
    "finals_data env t1 = JArr [JObj kv]" "finals_data env t2 = JObj kv"
  using assms by (simp_all add: parse_or_text_def parse_or_null_def finals_data_def)

lemma wrapped_fetchReview:
  assumes "json_parse env t1 = Some (JArr [JObj kv])" and "json_parse env t2 = Some (JObj kv)"
  shows "fetchReview_from env snap cur (Response True code t1) = fetchReview_from env snap cur (Response True code t2)"
  by (simp add: fetchReview_from_def wrapped_data [OF assms] unwrap_one)

lemma wrapped_reply:
  assumes "json_parse env t1 = Some (JArr [JObj kv])" and "json_parse env t2 = Some (JObj kv)"
  shows "sendBackToN8n_reply env s t1 = sendBackToN8n_reply env s t2"
  by (simp add: sendBackToN8n_reply_def wrapped_data [OF assms] unwrap_one)

lemma wrapped_sendBack:
  assumes "json_parse env t1 = Some (JArr [JObj kv])" and "json_parse env t2 = Some (JObj kv)"
  shows "sendBackToN8n env st (Response True code t1) r2 = sendBackToN8n env st (Response True code t2) r2"
  by (simp add: sendBackToN8n_def wrapped_reply [OF assms])

lemma wrapped_selected:
  assumes "json_parse env t1 = Some (JArr [JObj kv])" and "json_parse env t2 = Some (JObj kv)"
  shows "sendSelectedImagesBack env st (Response True code t1) = sendSelectedImagesBack env st (Response True code t2)"
  by (simp add: sendSelectedImagesBack_def wrapped_data [OF assms] unwrap_one)

lemma wrapped_finals:
  assumes "json_parse env t1 = Some (JArr [JObj kv])" and "json_parse env t2 = Some (JObj kv)"
  shows "sendImagesForFinals env st (Response True code t1) = sendImagesForFinals env st (Response True code t2)"
proof -
  have "finals_reply env s (JArr [JObj kv]) = finals_reply env s (JObj kv)" for s
    by (simp add: finals_reply_def unwrap_one)
  then show ?thesis
    by (simp add: sendImagesForFinals_def wrapped_data [OF assms])
qed

lemma wrapped_results:
  assumes "json_parse env t1 = Some (JArr [JObj kv])" and "json_parse env t2 = Some (JObj kv)"
    and "''status'' \<notin> fst ` set kv"
  shows "fetchResults_from env snap cur (Response True code t1) = fetchResults_from env snap cur (Response True code t2)"
proof -
  have a: "has_key (JArr [JObj kv]) ''status'' = False" by simp
  have b: "has_key (JObj kv) ''status'' = False" using assms(3) by simp
  have "results_reading env (JArr [JObj kv]) s = results_reading env (JObj kv) s" for s
    by (simp only: results_reading_def unwrap_one a b Let_def if_False)
  then show ?thesis
    by (simp add: fetchResults_from_def wrapped_data [OF assms(1,2)])
qed

lemma wrapped_compose:
  assumes "json_parse env t1 = Some (JArr [JObj kv])" and "json_parse env t2 = Some (JObj kv)"
    and "truthy (get_field (JObj kv) ''DELIVERABLES'')"
  shows "submitCompose env st (Response True code t1) r2 = submitCompose env st (Response True code t2) r2"
  using assms(3)
  by (simp add: submitCompose_def submitCompose_reply_def wrapped_data [OF assms(1,2)] unwrap_one)

text \<open>
  C4, amended. Let one reply parse to an object and another to the list of that one
  object, both with a success status. Review fetch, Review submit, Results submit and
  Finals request return the same state and issue the same requests for the two; so does
  Results refresh if the object has no member \<open>status\<close>, and Compose if the object has
  deliverables.
\<close>

theorem wrapped_reply_same:
  assumes "json_parse env t1 = Some (JArr [JObj kv])" and "json_parse env t2 = Some (JObj kv)"
  shows "fetchReview env st (Response True code t1) = fetchReview env st (Response True code t2) \<and>
         sendBackToN8n env st (Response True code t1) r2 = sendBackToN8n env st (Response True code t2) r2 \<and>
         sendSelectedImagesBack env st (Response True code t1) = sendSelectedImagesBack env st (Response True code t2) \<and>
         sendImagesForFinals env st (Response True code t1) = sendImagesForFinals env st (Response True code t2) \<and>
         (''status'' \<notin> fst ` set kv \<longrightarrow>
            fetchResults env st (Response True code t1) = fetchResults env st (Response True code t2)) \<and>
         (truthy (get_field (JObj kv) ''DELIVERABLES'') \<longrightarrow>
            submitCompose env st (Response True code t1) r2 = submitCompose env st (Response True code t2) r2)"
  using wrapped_fetchReview [OF assms] wrapped_sendBack [OF assms] wrapped_selected [OF assms]
    wrapped_finals [OF assms] wrapped_results [OF assms] wrapped_compose [OF assms]
  by (simp add: fetchReview_def fetchResults_def)

text \<open>
  C4, as stated, fails for Results refresh: it looks for \<open>status\<close> in the parsed value
  itself and unwraps a list only in the other branch, where the status comes from \<open>ok\<close>.
  The object with status \<open>done\<close> gives Done; the same object in a list gives Pending.
\<close>

theorem results_refresh_wrapped_status:
  "json_parse sample_env txt_done = Some (JObj [(''status'', JStr ''done'')]) \<and>
   json_parse sample_env txt_done_wrapped = Some (JArr [JObj [(''status'', JStr ''done'')]]) \<and>
   status (fst (fetchResults sample_env picked_state (Response True 200 txt_done))) = Done \<and>
   status (fst (fetchResults sample_env picked_state (Response True 200 txt_done_wrapped))) = Pending"
proof -
  have "json_parse sample_env txt_done = Some (JObj [(''status'', JStr ''done'')])" by code_simp
  moreover have "json_parse sample_env txt_done_wrapped = Some (JArr [JObj [(''status'', JStr ''done'')]])"
    by code_simp
  moreover have "status (fst (fetchResults sample_env picked_state (Response True 200 txt_done))) = Done"
    by code_simp
  moreover have "status (fst (fetchResults sample_env picked_state (Response True 200 txt_done_wrapped))) = Pending"
    by code_simp
  ultimately show ?thesis by blast
qed

theorem wrapped_reply_same_witness:
  "json_parse sample_env txt_next_wrapped = Some (JArr [JObj next_members]) \<and>
   json_parse sample_env txt_next = Some (JObj next_members) \<and>
   ''status'' \<notin> fst ` set next_members \<and>
   sendSelectedImagesBack sample_env picked_state (Response True 200 txt_next_wrapped)
     = sendSelectedImagesBack sample_env picked_state (Response True 200 txt_next) \<and>
   resumeUrl (fst (sendSelectedImagesBack sample_env picked_state (Response True 200 txt_next_wrapped)))
     = ''/webhook-wait/2'' \<and>
   fetchResults sample_env picked_state (Response True 200 txt_next_wrapped)
     = fetchResults sample_env picked_state (Response True 200 txt_next)"
proof -
  have w: "json_parse sample_env txt_next_wrapped = Some (JArr [JObj next_members])" by code_simp
  have p: "json_parse sample_env txt_next = Some (JObj next_members)" by code_simp
  have s: "''status'' \<notin> fst ` set next_members" by (simp add: next_members_def)
  have r: "resumeUrl (fst (sendSelectedImagesBack sample_env picked_state (Response True 200 txt_next_wrapped)))
     = ''/webhook-wait/2''" by code_simp
  from wrapped_reply_same [OF w p, of picked_state 200] s
  have "sendSelectedImagesBack sample_env picked_state (Response True 200 txt_next_wrapped)
     = sendSelectedImagesBack sample_env picked_state (Response True 200 txt_next) \<and>
   fetchResults sample_env picked_state (Response True 200 txt_next_wrapped)
     = fetchResults sample_env picked_state (Response True 200 txt_next)"
    by blast
  with w p s r show ?thesis by blast
qed

section \<open>The stored continuation address\<close>

lemma adopt_supplied:
  "supplied_address root = Some a \<Longrightarrow> \<exists>s2. adopt_resume root s = Some s2 \<and> resumeUrl s2 = a"
  by (auto simp: supplied_address_def adopt_resume_def Let_def split: if_splits option.splits)

lemma supplied_truthy:
  "supplied_address root = Some a \<Longrightarrow> truthy root"
  by (cases root) (simp_all add: supplied_address_def)

lemma take_deliverables_address:
  "adopt_resume root s = Some s2 \<Longrightarrow> resumeUrl (take_deliverables env dflt root s) = resumeUrl s2"
  by (simp add: take_deliverables_def caught_message_def split: sum.splits)

lemma take_deliverables_supplied:
  assumes "supplied_address root = Some a"
  shows "resumeUrl (take_deliverables env dflt root s) = a"
  using adopt_supplied [OF assms, of s] take_deliverables_address by fastforce

lemma style_address:
  assumes "resumeUrl st \<noteq> []" and "supplied_address (parse_or_null env raw) = Some a"
  shows "resumeUrl (fst (submitUploadStyle env st (Response True code raw))) = a"
  using assms(1) supplied_truthy [OF assms(2)]
    adopt_supplied [OF assms(2), of "st\<lparr>isUploadingStyle := True, message := JStr []\<rparr>"]
  by (auto simp: submitUploadStyle_def Let_def)

lemma compose_address:
  assumes "supplied_address (if truthy (first_of (parse_or_null env raw)) \<and>
                               truthy (get_field (first_of (parse_or_null env raw)) ''DELIVERABLES'')
                            then first_of (parse_or_null env raw) else parse_or_null env raw) = Some a"
  shows "resumeUrl (fst (submitCompose_reply env s raw)) = a"
proof (cases "truthy (first_of (parse_or_null env raw)) \<and>
              truthy (get_field (first_of (parse_or_null env raw)) ''DELIVERABLES'')")
  case True
  with assms have "supplied_address (first_of (parse_or_null env raw)) = Some a" by simp
  from take_deliverables_supplied [OF this] True show ?thesis
    by (simp add: submitCompose_reply_def Let_def)
next
  case False
  with assms have sup: "supplied_address (parse_or_null env raw) = Some a" by simp
  from adopt_supplied [OF sup, of s] supplied_truthy [OF sup] False show ?thesis
    by (auto simp: submitCompose_reply_def Let_def)
qed

lemma review_fetch_address:
  assumes "resumeUrl st \<noteq> []"
  shows "truthy (first_of (parse_or_text env raw)) \<and>
         truthy (get_field (first_of (parse_or_text env raw)) ''DELIVERABLES'') \<and>
         supplied_address (first_of (parse_or_text env raw)) = Some a \<longrightarrow>
           resumeUrl (fst (fetchReview env st (Response True code raw))) = a"
    and "\<not> (truthy (first_of (parse_or_text env raw)) \<and>
            truthy (get_field (first_of (parse_or_text env raw)) ''DELIVERABLES'')) \<longrightarrow>
           resumeUrl (fst (fetchReview env st (Response True code raw))) = resumeUrl st"
  using assms
  by (auto simp: fetchReview_def fetchReview_from_def Let_def take_deliverables_supplied)

lemma review_submit_address:
  assumes "supplied_address (root_of (parse_or_text env raw)) = Some a"
  shows "resumeUrl (fst (sendBackToN8n_reply env s raw)) = a"
  using adopt_supplied [OF assms, of s]
  by (auto simp: sendBackToN8n_reply_def Let_def set_message_if_def caught_message_def
           split: option.splits)

lemma results_refresh_address:
  assumes "resumeUrl st \<noteq> []"
  shows "\<not> has_key (parse_or_text env raw) ''status'' \<and>
         normalizeImages env (get_field (coerceRootFromAny (parse_or_text env raw)) ''images'') \<noteq> None \<and>
         supplied_address (coerceRootFromAny (parse_or_text env raw)) = Some a \<longrightarrow>
           resumeUrl (fst (fetchResults env st (Response True code raw))) = a"
    and "has_key (parse_or_text env raw) ''status'' \<longrightarrow>
           resumeUrl (fst (fetchResults env st (Response True code raw))) = resumeUrl st"
proof -
  show "\<not> has_key (parse_or_text env raw) ''status'' \<and>
         normalizeImages env (get_field (coerceRootFromAny (parse_or_text env raw)) ''images'') \<noteq> None \<and>
         supplied_address (coerceRootFromAny (parse_or_text env raw)) = Some a \<longrightarrow>
           resumeUrl (fst (fetchResults env st (Response True code raw))) = a"
  proof
    assume h: "\<not> has_key (parse_or_text env raw) ''status'' \<and>
         normalizeImages env (get_field (coerceRootFromAny (parse_or_text env raw)) ''images'') \<noteq> None \<and>
         supplied_address (coerceRootFromAny (parse_or_text env raw)) = Some a"
    then obtain s2 where s2: "adopt_resume (coerceRootFromAny (parse_or_text env raw)) (st\<lparr>status := Pending\<rparr>) = Some s2"
        "resumeUrl s2 = a"
      using adopt_supplied by blast
    from h obtain imgs where imgs: "normalizeImages env (get_field (coerceRootFromAny (parse_or_text env raw)) ''images'') = Some imgs"
      by auto
    from h s2 imgs assms show "resumeUrl (fst (fetchResults env st (Response True code raw))) = a"
      by (simp add: fetchResults_def fetchResults_from_def results_reading_def Let_def set_message_if_def)
  qed
next
  show "has_key (parse_or_text env raw) ''status'' \<longrightarrow>
           resumeUrl (fst (fetchResults env st (Response True code raw))) = resumeUrl st"
    using assms
    by (auto simp: fetchResults_def fetchResults_from_def results_reading_def Let_def set_message_if_def
             split: option.splits)
qed

lemma results_submit_address:
  assumes "resumeUrl st \<noteq> []" and "selections st \<noteq> []"
    and "supplied_address (root_of (parse_or_text env raw)) = Some a"
  shows "resumeUrl (fst (sendSelectedImagesBack env st (Response True code raw))) = a"
  using assms(1,2)
    adopt_supplied [OF assms(3), of "st\<lparr>sendingImages := True, message := JStr [], status := Pending\<rparr>"]
  by (auto simp: sendSelectedImagesBack_def Let_def set_message_if_def split: option.splits)

lemma finals_reply_address:
  "resumeUrl (finals_reply env s data) =
     (case js_String (or_else (get_field (finals_root data) ''resumeUrl'') (JStr [])) of
        None \<Rightarrow> resumeUrl s
      | Some m \<Rightarrow> if resume_shaped m \<and> \<not> is_placeholder m then m else resumeUrl s)"
  by (auto simp: finals_reply_def Let_def split: option.splits)

lemma finals_address:
  assumes "resumeUrl st \<noteq> []" and "selections st \<noteq> []"
  shows "resumeUrl (fst (sendImagesForFinals env st (Response True code raw))) =
     (let data = finals_data env raw
      in case js_String (or_else (get_field (finals_root data) ''resumeUrl'') (JStr [])) of
           None \<Rightarrow> resumeUrl st
         | Some m \<Rightarrow>
             if truthy data \<and> resume_shaped m \<and> \<not> is_placeholder m then m else resumeUrl st)"
  using assms
  by (simp add: sendImagesForFinals_def Let_def finals_reply_address split: option.splits)

text \<open>
  C1, amended. Let an address be stored and a handler get a response with a success
  status. A supplied address is a \<open>resumeUrl\<close> of the reply that is truthy, that \<open>String\<close>
  converts, and that is no placeholder.
  \<^item> Style upload stores the address supplied by the parsed value itself.
  \<^item> Compose stores the address supplied by the unwrapped reply when that has
    deliverables, and otherwise the one supplied by the parsed value itself.
  \<^item> Review fetch stores the address supplied by the unwrapped reply when that has
    deliverables, and otherwise keeps the stored address.
  \<^item> Review submit and Results submit store the address supplied by the unwrapped reply.
  \<^item> Results refresh stores the address supplied by the unwrapped reply when the parsed
    value has no member \<open>status\<close> and the images of the reply are read without exception;
    when the parsed value has a member \<open>status\<close> it keeps the stored address.
  \<^item> Finals request stores the \<open>resumeUrl\<close> of the unwrapped reply when that starts with
    \<open>http://\<close>, \<open>https://\<close> or \<open>/\<close> and contains no placeholder marker, and otherwise keeps
    the stored address: there a placeholder is rejected.
\<close>

theorem address_update:
  assumes "resumeUrl st \<noteq> []"
  shows
   "(supplied_address (parse_or_null env raw) = Some a \<longrightarrow>
       resumeUrl (fst (submitUploadStyle env st (Response True code raw))) = a) \<and>
    (supplied_address (if truthy (first_of (parse_or_null env raw)) \<and>
                          truthy (get_field (first_of (parse_or_null env raw)) ''DELIVERABLES'')
                       then first_of (parse_or_null env raw) else parse_or_null env raw) = Some a \<longrightarrow>
       resumeUrl (fst (submitCompose_reply env s raw)) = a) \<and>
    (truthy (first_of (parse_or_text env raw)) \<and>
     truthy (get_field (first_of (parse_or_text env raw)) ''DELIVERABLES'') \<and>
     supplied_address (first_of (parse_or_text env raw)) = Some a \<longrightarrow>
       resumeUrl (fst (fetchReview env st (Response True code raw))) = a) \<and>
    (\<not> (truthy (first_of (parse_or_text env raw)) \<and>
        truthy (get_field (first_of (parse_or_text env raw)) ''DELIVERABLES'')) \<longrightarrow>
       resumeUrl (fst (fetchReview env st (Response True code raw))) = resumeUrl st) \<and>
    (supplied_address (root_of (parse_or_text env raw)) = Some a \<longrightarrow>
       resumeUrl (fst (sendBackToN8n_reply env s raw)) = a) \<and>
    (\<not> has_key (parse_or_text env raw) ''status'' \<and>
     normalizeImages env (get_field (coerceRootFromAny (parse_or_text env raw)) ''images'') \<noteq> None \<and>
     supplied_address (coerceRootFromAny (parse_or_text env raw)) = Some a \<longrightarrow>
       resumeUrl (fst (fetchResults env st (Response True code raw))) = a) \<and>
    (has_key (parse_or_text env raw) ''status'' \<longrightarrow>
       resumeUrl (fst (fetchResults env st (Response True code raw))) = resumeUrl st) \<and>
    (selections st \<noteq> [] \<and> supplied_address (root_of (parse_or_text env raw)) = Some a \<longrightarrow>
       resumeUrl (fst (sendSelectedImagesBack env st (Response True code raw))) = a) \<and>
    (selections st \<noteq> [] \<longrightarrow>
       resumeUrl (fst (sendImagesForFinals env st (Response True code raw))) =
         (let data = finals_data env raw
          in case js_String (or_else (get_field (finals_root data) ''resumeUrl'') (JStr [])) of
               None \<Rightarrow> resumeUrl st
             | Some m \<Rightarrow>
                 if truthy data \<and> resume_shaped m \<and> \<not> is_placeholder m then m else resumeUrl st))"
proof -
  have c1: "supplied_address (parse_or_null env raw) = Some a \<longrightarrow>
       resumeUrl (fst (submitUploadStyle env st (Response True code raw))) = a"
    using style_address [OF assms] by blast
  have c2: "supplied_address (if truthy (first_of (parse_or_null env raw)) \<and>
                          truthy (get_field (first_of (parse_or_null env raw)) ''DELIVERABLES'')
                       then first_of (parse_or_null env raw) else parse_or_null env raw) = Some a \<longrightarrow>
       resumeUrl (fst (submitCompose_reply env s raw)) = a"
    using compose_address by (intro impI)
  have c5: "supplied_address (root_of (parse_or_text env raw)) = Some a \<longrightarrow>
       resumeUrl (fst (sendBackToN8n_reply env s raw)) = a"
    using review_submit_address by blast
  have c8: "selections st \<noteq> [] \<and> supplied_address (root_of (parse_or_text env raw)) = Some a \<longrightarrow>
       resumeUrl (fst (sendSelectedImagesBack env st (Response True code raw))) = a"
    using results_submit_address [OF assms] by blast
  have c9: "selections st \<noteq> [] \<longrightarrow>
       resumeUrl (fst (sendImagesForFinals env st (Response True code raw))) =
         (let data = finals_data env raw
          in case js_String (or_else (get_field (finals_root data) ''resumeUrl'') (JStr [])) of
               None \<Rightarrow> resumeUrl st
             | Some m \<Rightarrow>
                 if truthy data \<and> resume_shaped m \<and> \<not> is_placeholder m then m else resumeUrl st)"
    using finals_address [OF assms] by (intro impI)
  show ?thesis
    by (intro conjI c1 c2 review_fetch_address [OF assms] c5 results_refresh_address [OF assms] c8 c9)
qed

theorem address_update_witness:
  "resumeUrl picked_state \<noteq> [] \<and> selections picked_state \<noteq> [] \<and>
   supplied_address (parse_or_null sample_env txt_next) = Some ''/webhook-wait/2'' \<and>
   resumeUrl (fst (submitUploadStyle sample_env picked_state (Response True 200 txt_next))) = ''/webhook-wait/2'' \<and>
   resumeUrl (fst (submitCompose_reply sample_env picked_state txt_next)) = ''/webhook-wait/2'' \<and>
   resumeUrl (fst (submitCompose_reply sample_env picked_state txt_deliverables)) = ''/webhook-wait/2'' \<and>
   resumeUrl (fst (fetchReview sample_env picked_state (Response True 200 txt_deliverables))) = ''/webhook-wait/2'' \<and>
   resumeUrl (fst (fetchReview sample_env picked_state (Response True 200 txt_next))) = resumeUrl picked_state \<and>
   resumeUrl (fst (sendBackToN8n_reply sample_env picked_state txt_next)) = ''/webhook-wait/2'' \<and>
   resumeUrl (fst (fetchResults sample_env picked_state (Response True 200 txt_next))) = ''/webhook-wait/2'' \<and>
   has_key (parse_or_text sample_env txt_pending_next) ''status'' \<and>
   resumeUrl (fst (fetchResults sample_env picked_state (Response True 200 txt_pending_next))) = resumeUrl picked_state \<and>
   resumeUrl (fst (sendSelectedImagesBack sample_env picked_state (Response True 200 txt_next))) = ''/webhook-wait/2'' \<and>
   resumeUrl (fst (sendImagesForFinals sample_env picked_state (Response True 200 txt_next))) = ''/webhook-wait/2'' \<and>
   resumeUrl (fst (sendImagesForFinals sample_env picked_state (Response True 200 txt_placeholder)))
     = resumeUrl picked_state"
proof -
  have u: "resumeUrl picked_state \<noteq> []" by (simp add: picked_state_def)
  have sel: "selections picked_state \<noteq> []" by code_simp
  have n0: "parse_or_null sample_env txt_next = JObj next_members" by code_simp
  have n1: "parse_or_text sample_env txt_next = JObj next_members" by code_simp
  have n2: "finals_data sample_env txt_next = JObj next_members" by code_simp
  have sup: "supplied_address (JObj next_members) = Some ''/webhook-wait/2''" by code_simp
  have nd: "\<not> truthy (get_field (JObj next_members) ''DELIVERABLES'')" by code_simp
  have ns: "\<not> has_key (JObj next_members) ''status''" by code_simp
  have fm: "js_String (or_else (get_field (JObj next_members) ''resumeUrl'') (JStr [])) = Some ''/webhook-wait/2''"
    by code_simp
  have ni: "normalizeImages sample_env (get_field (JObj next_members) ''images'') = Some []" by code_simp
  have fs: "resume_shaped ''/webhook-wait/2''" by code_simp
  have fp: "\<not> is_placeholder ''/webhook-wait/2''" by code_simp
  have d1: "first_of (parse_or_text sample_env txt_deliverables) = parse_or_null sample_env txt_deliverables"
    by code_simp
  have d2: "first_of (parse_or_null sample_env txt_deliverables) = parse_or_null sample_env txt_deliverables"
    by code_simp
  have d3: "truthy (parse_or_null sample_env txt_deliverables)" by code_simp
  have d4: "truthy (get_field (parse_or_null sample_env txt_deliverables) ''DELIVERABLES'')" by code_simp
  have d5: "supplied_address (parse_or_null sample_env txt_deliverables) = Some ''/webhook-wait/2''" by code_simp
  have k: "has_key (parse_or_text sample_env txt_pending_next) ''status''" by code_simp
  have p1: "finals_data sample_env txt_placeholder = JObj [(''resumeUrl'', JStr ''[filled at execution time]'')]"
    by code_simp
  have p2: "is_placeholder ''[filled at execution time]''" by code_simp
  have p3: "js_String (JStr ''[filled at execution time]'') = Some ''[filled at execution time]''" by simp
  note nxt = address_update [OF u, where env = sample_env and raw = txt_next and code = 200
      and a = "''/webhook-wait/2''" and s = picked_state]
  note deliv = address_update [OF u, where env = sample_env and raw = txt_deliverables and code = 200
      and a = "''/webhook-wait/2''" and s = picked_state]
  note pend = address_update [OF u, where env = sample_env and raw = txt_pending_next and code = 200]
  note plac = address_update [OF u, where env = sample_env and raw = txt_placeholder and code = 200]
  from nxt n0 n1 n2 sup nd ns fm fs fp sel ni
  have a: "resumeUrl (fst (submitUploadStyle sample_env picked_state (Response True 200 txt_next))) = ''/webhook-wait/2'' \<and>
   resumeUrl (fst (submitCompose_reply sample_env picked_state txt_next)) = ''/webhook-wait/2'' \<and>
   resumeUrl (fst (fetchReview sample_env picked_state (Response True 200 txt_next))) = resumeUrl picked_state \<and>
   resumeUrl (fst (sendBackToN8n_reply sample_env picked_state txt_next)) = ''/webhook-wait/2'' \<and>
   resumeUrl (fst (fetchResults sample_env picked_state (Response True 200 txt_next))) = ''/webhook-wait/2'' \<and>
   resumeUrl (fst (sendSelectedImagesBack sample_env picked_state (Response True 200 txt_next))) = ''/webhook-wait/2'' \<and>
   resumeUrl (fst (sendImagesForFinals sample_env picked_state (Response True 200 txt_next))) = ''/webhook-wait/2''"
    by (simp add: first_of_def root_of_def finals_root_def coerceRootFromAny_def Let_def)
  from deliv d1 d2 d3 d4 d5
  have b: "resumeUrl (fst (submitCompose_reply sample_env picked_state txt_deliverables)) = ''/webhook-wait/2'' \<and>
   resumeUrl (fst (fetchReview sample_env picked_state (Response True 200 txt_deliverables))) = ''/webhook-wait/2''"
    by simp
  from pend k
  have c: "resumeUrl (fst (fetchResults sample_env picked_state (Response True 200 txt_pending_next))) = resumeUrl picked_state"
    by blast
  from plac p1 p2 p3 sel
  have d: "resumeUrl (fst (sendImagesForFinals sample_env picked_state (Response True 200 txt_placeholder)))
     = resumeUrl picked_state"
    by (simp add: finals_root_def or_else_def Let_def)
  from u sel n0 sup a b k c d show ?thesis by simp
qed

text \<open>
  C1, as stated, fails. Results refresh gets a reply with a status and the address
  \<open>/webhook-wait/2\<close>, and keeps \<open>/webhook-wait/1\<close>. Results submit gets a reply whose
  address is the placeholder, and stores the placeholder.
\<close>

theorem address_handling_differs:
  "resumeUrl picked_state = ''/webhook-wait/1'' \<and>
   json_parse sample_env txt_pending_next
     = Some (JObj [(''status'', JStr ''pending''), (''resumeUrl'', JStr ''/webhook-wait/2'')]) \<and>
   resumeUrl (fst (fetchResults sample_env picked_state (Response True 200 txt_pending_next))) = ''/webhook-wait/1'' \<and>
   json_parse sample_env txt_placeholder = Some (JObj [(''resumeUrl'', JStr ''[filled at execution time]'')]) \<and>
   is_placeholder ''[filled at execution time]'' \<and>
   resumeUrl (fst (sendSelectedImagesBack sample_env picked_state (Response True 200 txt_placeholder)))
     = ''[filled at execution time]''"
proof -
  have "resumeUrl picked_state = ''/webhook-wait/1''" by (simp add: picked_state_def)
  moreover have "json_parse sample_env txt_pending_next
     = Some (JObj [(''status'', JStr ''pending''), (''resumeUrl'', JStr ''/webhook-wait/2'')])" by code_simp
  moreover have "resumeUrl (fst (fetchResults sample_env picked_state (Response True 200 txt_pending_next)))
     = ''/webhook-wait/1''" by code_simp
  moreover have "json_parse sample_env txt_placeholder
     = Some (JObj [(''resumeUrl'', JStr ''[filled at execution time]'')])" by code_simp
  moreover have "is_placeholder ''[filled at execution time]''" by code_simp
  moreover have "resumeUrl (fst (sendSelectedImagesBack sample_env picked_state (Response True 200 txt_placeholder)))
     = ''[filled at execution time]''" by code_simp
  ultimately show ?thesis by blast
qed

end
